theory Spec2Isabelle
  imports Complex_Main
begin

section \<open>Tensors and the primitives of the tensor engine\<close>

text \<open>
  The repository wires layers of an external tensor library into a decoder
  (\<^verbatim>\<open>model/decoder.py\<close>) and a variational autoencoder
  (\<^verbatim>\<open>model/variational_autoencoder.py\<close>).  A tensor is modelled by its
  static shape and by the element stored at each index.  The element type \<open>'a\<close> and
  the scalar operations on it (32-bit floating point in the program) are parameters:
  nothing below depends on how a float rounds.
\<close>

datatype error = ValueError | InvalidArgumentError | TypeError

definition bindE :: "error + 'a \<Rightarrow> ('a \<Rightarrow> error + 'b) \<Rightarrow> error + 'b" where
  "bindE m f = (case m of Inl e \<Rightarrow> Inl e | Inr x \<Rightarrow> f x)"

record 'a tensor =
  shape :: "nat list"
  elem :: "nat list \<Rightarrow> 'a"

record 'a float_ops =
  fadd :: "'a \<Rightarrow> 'a \<Rightarrow> 'a"
  fmul :: "'a \<Rightarrow> 'a \<Rightarrow> 'a"
  fexp :: "'a \<Rightarrow> 'a"
  fhalf :: "'a"
  frelu :: "'a \<Rightarrow> 'a"
  fsigmoid :: "'a \<Rightarrow> 'a"

text \<open>An index addresses an element of a tensor when it has one entry per axis, each
  below the extent of its axis.\<close>

definition valid_index :: "nat list \<Rightarrow> nat list \<Rightarrow> bool" where
  "valid_index s idx = list_all2 (<) idx s"

subsection \<open>Element-wise operations with broadcasting\<close>

text \<open>Shapes are aligned at their last axis; two extents are compatible when they
  are equal or one of them is 1.  \<open>broadcast_rev\<close> works on the reversed shapes.\<close>

fun broadcast_rev :: "nat list \<Rightarrow> nat list \<Rightarrow> error + nat list" where
  "broadcast_rev [] ys = Inr ys"
| "broadcast_rev (x # xs) [] = Inr (x # xs)"
| "broadcast_rev (x # xs) (y # ys) =
     (if x = y \<or> y = 1 then bindE (broadcast_rev xs ys) (\<lambda>r. Inr (x # r))
      else if x = 1 then bindE (broadcast_rev xs ys) (\<lambda>r. Inr (y # r))
      else Inl InvalidArgumentError)"

definition broadcast_shape :: "nat list \<Rightarrow> nat list \<Rightarrow> error + nat list" where
  "broadcast_shape s1 s2 = bindE (broadcast_rev (rev s1) (rev s2)) (\<lambda>r. Inr (rev r))"

text \<open>The index of the operand element that is combined into the result element at
  \<open>idx\<close>: leading axes the operand lacks are dropped, and an axis of extent 1 is
  read at position 0.\<close>

definition bcast_index :: "nat list \<Rightarrow> nat list \<Rightarrow> nat list" where
  "bcast_index s idx =
     map2 (\<lambda>d i. if d = 1 then 0 else i) s (drop (length idx - length s) idx)"

definition elementwise2 :: "('a \<Rightarrow> 'a \<Rightarrow> 'a) \<Rightarrow> 'a tensor \<Rightarrow> 'a tensor \<Rightarrow> error + 'a tensor" where
  "elementwise2 f a b =
     bindE (broadcast_shape (shape a) (shape b)) (\<lambda>s.
       Inr \<lparr>shape = s,
            elem = (\<lambda>idx. f (elem a (bcast_index (shape a) idx)) (elem b (bcast_index (shape b) idx)))\<rparr>)"

definition elementwise1 :: "('a \<Rightarrow> 'a) \<Rightarrow> 'a tensor \<Rightarrow> 'a tensor" where
  "elementwise1 f a = \<lparr>shape = shape a, elem = (\<lambda>idx. f (elem a idx))\<rparr>"

section \<open>The sampling step\<close>

text \<open>
  \<^verbatim>\<open>
  def sample(latent_args):
      z_mean, z_logvar = latent_args
      eps = tf.random.normal(shape=z_mean.shape, dtype=tf.float32)
      return z_mean + tf.math.exp(0.5 * z_logvar) * eps
  \<close>
  The random draw is an argument: \<open>normal\<close> gives the value drawn for each index,
  and the code gives the drawn tensor the shape of \<open>z_mean\<close>.
\<close>

definition sample :: "'a float_ops \<Rightarrow> (nat list \<Rightarrow> 'a) \<Rightarrow> 'a tensor \<times> 'a tensor \<Rightarrow> error + 'a tensor" where
  "sample F normal latent_args =
     (case latent_args of (z_mean, z_logvar) \<Rightarrow>
        let eps = \<lparr>shape = shape z_mean, elem = normal\<rparr> in
        bindE (elementwise2 (fmul F)
                 (elementwise1 (fexp F) (elementwise1 (fmul F (fhalf F)) z_logvar)) eps)
          (\<lambda>scaled. elementwise2 (fadd F) z_mean scaled))"

section \<open>Layers of the tensor library\<close>

text \<open>
  The layers the two files instantiate are classes of the external library.  One
  datatype per class records the constructor arguments the source passes; the
  \<open>_call\<close> function of a class gives the static shape of the layer's output by the
  library's shape rules.  A layer with learned parameters takes them as a
  \<open>kernel\<close>: the function from the input tensor to the element at each index of
  the output, whatever the trained weights make it.
\<close>

datatype data_format = channels_last | channels_first

datatype padding = same | valid

datatype activation = relu | sigmoid

datatype initializer = he_normal | glorot_uniform

type_synonym 'a kernel = "'a tensor \<Rightarrow> nat list \<Rightarrow> 'a"

definition act :: "'a float_ops \<Rightarrow> activation \<Rightarrow> 'a \<Rightarrow> 'a" where
  "act F a = (case a of relu \<Rightarrow> frelu F | sigmoid \<Rightarrow> fsigmoid F)"

text \<open>A volume has rank 5: batch, three spatial axes, and the channel axis last or
  right after the batch.\<close>

fun split5 :: "data_format \<Rightarrow> nat list \<Rightarrow> (nat \<times> nat list \<times> nat) option" where
  "split5 channels_last [n, a, b, c, ch] = Some (n, [a, b, c], ch)"
| "split5 channels_first [n, ch, a, b, c] = Some (n, [a, b, c], ch)"
| "split5 df s = None"

definition join5 :: "data_format \<Rightarrow> nat \<Rightarrow> nat list \<Rightarrow> nat \<Rightarrow> nat list" where
  "join5 df n sp ch = (case df of channels_last \<Rightarrow> n # sp @ [ch] | channels_first \<Rightarrow> n # ch # sp)"

subsection \<open>Conv3D\<close>

datatype 'r Conv3D =
  Conv3D (filters: nat) (kernel_size: nat) (strides: nat) (padding: padding)
         (data_format: data_format) (activation: "activation option")
         (kernel_initializer: initializer) (kernel_regularizer: "'r option")

definition conv_output_length :: "padding \<Rightarrow> nat \<Rightarrow> nat \<Rightarrow> nat \<Rightarrow> nat" where
  "conv_output_length p k s n =
     (case p of same \<Rightarrow> (n + s - 1) div s | valid \<Rightarrow> (n + s - k) div s)"

text \<open>
  The library refuses a convolution without filters, with a kernel of size 0 or with
  a stride of 0 when the layer is constructed (ValueError).  The constructors of the
  model are total, and the call reports the refusal before it looks at its input.
  The input must have rank 5, and the convolution of a tensor with an empty axis,
  the batch axis included, raises.
\<close>

definition Conv3D_call :: "'a float_ops \<Rightarrow> 'r Conv3D \<Rightarrow> 'a kernel \<Rightarrow> 'a tensor \<Rightarrow> error + 'a tensor" where
  "Conv3D_call F l k x =
     (if filters l = 0 \<or> kernel_size l = 0 \<or> strides l = 0 then Inl ValueError
      else case split5 (data_format l) (shape x) of
        None \<Rightarrow> Inl ValueError
      | Some (n, sp, ch) \<Rightarrow>
          if padding l = valid \<and> list_ex (\<lambda>d. d < kernel_size l) sp then Inl ValueError
          else if list_ex (\<lambda>d. d = 0) (shape x) then Inl InvalidArgumentError
          else Inr \<lparr>shape = join5 (data_format l) n
                              (map (conv_output_length (padding l) (kernel_size l) (strides l)) sp)
                              (filters l),
                    elem = (case activation l of
                            None \<Rightarrow> k x
                          | Some a \<Rightarrow> (\<lambda>idx. act F a (k x idx)))\<rparr>)"

subsection \<open>UpSampling3D\<close>

datatype UpSampling3D = UpSampling3D (up_size: nat) (data_format: data_format)

fun upsample_source :: "data_format \<Rightarrow> nat \<Rightarrow> nat list \<Rightarrow> nat list" where
  "upsample_source channels_last k [n, a, b, c, ch] = [n, a div k, b div k, c div k, ch]"
| "upsample_source channels_first k [n, ch, a, b, c] = [n, ch, a div k, b div k, c div k]"
| "upsample_source df k idx = idx"

definition UpSampling3D_call :: "UpSampling3D \<Rightarrow> 'a tensor \<Rightarrow> error + 'a tensor" where
  "UpSampling3D_call l x =
     (case split5 (UpSampling3D.data_format l) (shape x) of
        None \<Rightarrow> Inl ValueError
      | Some (n, sp, ch) \<Rightarrow>
          Inr \<lparr>shape = join5 (UpSampling3D.data_format l) n (map (\<lambda>d. d * up_size l) sp) ch,
               elem = (\<lambda>idx. elem x (upsample_source (UpSampling3D.data_format l) (up_size l) idx))\<rparr>)"

subsection \<open>Add\<close>

datatype Add = Add

text \<open>The merge layer refuses operands whose batch sizes differ or whose shapes cannot
  be broadcast together (ValueError), gives operands of lower rank extra axes of
  extent 1 after the batch axis, and adds with broadcasting.\<close>

definition expand_dims1 :: "nat \<Rightarrow> 'a tensor \<Rightarrow> 'a tensor" where
  "expand_dims1 k t =
     (case shape t of
        [] \<Rightarrow> t
      | n # rest \<Rightarrow>
          \<lparr>shape = n # replicate k 1 @ rest,
           elem = (\<lambda>idx. case idx of [] \<Rightarrow> elem t [] | i # r \<Rightarrow> elem t (i # drop k r))\<rparr>)"


subsection \<open>ConvBlock and GroupNormalization\<close>

text \<open>
  Modelled from the spec: \<^verbatim>\<open>ConvBlock\<close> (imported from
  \<^verbatim>\<open>model/resnet_block.py\<close> and \<^verbatim>\<open>model/layers.py\<close>) and
  \<^verbatim>\<open>GroupNormalization\<close> (\<^verbatim>\<open>model/group_norm.py\<close>) are not among the
  sources.  The spec treats ConvBlock as a black box that refines a volume into one
  with \<open>filters\<close> channels and the same spatial extent, and GroupNormalization as a
  normalization of the activations, which keeps the shape.  The variational
  autoencoder leaves \<open>reduction\<close>, \<open>kernel_initializer\<close> and \<open>use_se\<close> elem the
  defaults of ConvBlock (\<open>None\<close> below).
\<close>

datatype 'r ConvBlock =
  ConvBlock (filters: nat) (kernel_size: nat) (data_format: data_format) (groups: nat)
            (reduction: "nat option") (kernel_regularizer: "'r option")
            (kernel_initializer: "initializer option") (use_se: "bool option")

definition ConvBlock_call :: "'r ConvBlock \<Rightarrow> 'a kernel \<Rightarrow> 'a tensor \<Rightarrow> error + 'a tensor" where
  "ConvBlock_call l k x =
     (case split5 (ConvBlock.data_format l) (shape x) of
        None \<Rightarrow> Inl ValueError
      | Some (n, sp, ch) \<Rightarrow>
          Inr \<lparr>shape = join5 (ConvBlock.data_format l) n sp (ConvBlock.filters l), elem = k x\<rparr>)"

datatype GroupNormalization = GroupNormalization (groups: nat) (axis: int)

definition GroupNormalization_call :: "GroupNormalization \<Rightarrow> 'a kernel \<Rightarrow> 'a tensor \<Rightarrow> error + 'a tensor" where
  "GroupNormalization_call l k x = Inr \<lparr>shape = shape x, elem = k x\<rparr>"

subsection \<open>Activation, Flatten, Dense, Reshape\<close>

datatype Activation = Activation (fn: activation)

definition Activation_call :: "'a float_ops \<Rightarrow> Activation \<Rightarrow> 'a tensor \<Rightarrow> error + 'a tensor" where
  "Activation_call F l x = Inr (elementwise1 (act F (fn l)) x)"

text \<open>Row-major position of an index within the given extents, and back.\<close>

fun ravel :: "nat list \<Rightarrow> nat list \<Rightarrow> nat" where
  "ravel (d # ds) (i # is) = i * prod_list ds + ravel ds is"
| "ravel ds is = 0"

fun unravel :: "nat list \<Rightarrow> nat \<Rightarrow> nat list" where
  "unravel [] k = []"
| "unravel (d # ds) k = (k div prod_list ds) # unravel ds (k mod prod_list ds)"

datatype Flatten = Flatten (data_format: data_format)

text \<open>With \<open>channels_first\<close> the layer moves the channel axis last before it
  flattens.\<close>

definition Flatten_call :: "Flatten \<Rightarrow> 'a tensor \<Rightarrow> error + 'a tensor" where
  "Flatten_call l x =
     (case shape x of
        [] \<Rightarrow> Inl ValueError
      | n # rest \<Rightarrow>
          Inr \<lparr>shape = [n, prod_list rest],
               elem = (\<lambda>idx. case idx of
                       [i, j] \<Rightarrow>
                         (if Flatten.data_format l = channels_first \<and> rest \<noteq> []
                          then let t = unravel (tl rest @ [hd rest]) j
                               in elem x (i # last t # butlast t)
                          else elem x (i # unravel rest j))
                     | _ \<Rightarrow> elem x idx)\<rparr>)"

datatype Dense = Dense (units: nat)

definition Dense_call :: "Dense \<Rightarrow> 'a kernel \<Rightarrow> 'a tensor \<Rightarrow> error + 'a tensor" where
  "Dense_call l k x =
     (if length (shape x) < 2 then Inl ValueError
      else Inr \<lparr>shape = butlast (shape x) @ [units l], elem = k x\<rparr>)"

datatype Reshape = Reshape (target_shape: "nat list")

definition Reshape_call :: "Reshape \<Rightarrow> 'a tensor \<Rightarrow> error + 'a tensor" where
  "Reshape_call l x =
     (case shape x of
        [] \<Rightarrow> Inl ValueError
      | n # rest \<Rightarrow>
          if prod_list rest \<noteq> prod_list (target_shape l) then Inl InvalidArgumentError
          else Inr \<lparr>shape = n # target_shape l,
                    elem = (\<lambda>idx. case idx of
                            [] \<Rightarrow> elem x []
                          | i # r \<Rightarrow> elem x (i # unravel rest (ravel (target_shape l) r)))\<rparr>)"

subsection \<open>Slices along the second axis\<close>

text \<open>\<^verbatim>\<open>x[:, :k]\<close> and \<^verbatim>\<open>x[:, k:]\<close>, for a tensor of rank 2 or more.\<close>

definition slice_cols_to :: "nat \<Rightarrow> 'a tensor \<Rightarrow> error + 'a tensor" where
  "slice_cols_to k x =
     (case shape x of
        n # m # rest \<Rightarrow> Inr \<lparr>shape = n # min k m # rest, elem = elem x\<rparr>
      | _ \<Rightarrow> Inl ValueError)"

definition slice_cols_from :: "nat \<Rightarrow> 'a tensor \<Rightarrow> error + 'a tensor" where
  "slice_cols_from k x =
     (case shape x of
        n # m # rest \<Rightarrow>
          Inr \<lparr>shape = n # (m - k) # rest,
               elem = (\<lambda>idx. case idx of i # j # r \<Rightarrow> elem x (i # (j + k) # r) | _ \<Rightarrow> elem x idx)\<rparr>
      | _ \<Rightarrow> Inl ValueError)"

section \<open>Constants and configuration records\<close>

text \<open>
  Both files read their sizes from \<^verbatim>\<open>utils/constants.py\<close>
  (\<^verbatim>\<open>from utils.constants import *\<close>), which is not among the sources.  The
  constants are a parameter of the model, one field per name the two files use.
\<close>

record constants =
  H :: nat
  W :: nat
  D :: nat
  IN_CH :: nat
  OUT_CH :: nat
  DEC_CONV_BLOCK2_SIZE :: nat
  DEC_CONV_BLOCK1_SIZE :: nat
  DEC_CONV_BLOCK0_SIZE :: nat
  DEC_CONV_LAYER_SIZE :: nat
  VAE_VD_CONV_SIZE :: nat
  VAE_LATENT_SIZE :: nat
  VAE_VU_BLOCK_SIZE :: nat
  VAE_CONV_BLOCK2_SIZE :: nat
  VAE_CONV_BLOCK1_SIZE :: nat
  VAE_CONV_BLOCK0_SIZE :: nat

text \<open>
  Modelled from the spec: the value of \<^verbatim>\<open>VAE_VD_BLOCK_SIZE\<close>, the number
  of units of the VD projection, is in the missing \<^verbatim>\<open>utils/constants.py\<close>.
  The spec has the flattened activation projected to a vector of length
  2 \<times> latent size.
\<close>

definition VAE_VD_BLOCK_SIZE :: "constants \<Rightarrow> nat" where
  "VAE_VD_BLOCK_SIZE c = 2 * VAE_LATENT_SIZE c"

text \<open>
  A configuration is a dictionary from key to value.  \<open>'d\<close> is the type of the
  descriptor that \<^verbatim>\<open>tf.keras.regularizers.serialize\<close> returns for a regularizer.
\<close>

datatype 'd config_value =
  Nat_value nat | Str_value string | Bool_value bool | Format_value data_format
  | Descriptor 'd

type_synonym 'd config = "string \<rightharpoonup> 'd config_value"

section \<open>The decoder (\<^verbatim>\<open>model/decoder.py\<close>)\<close>

subsection \<open>DecoderBlock\<close>

record ('r, 'd) DecoderBlock =
  config :: "'d config"
  conv3d_ptwise :: "'r Conv3D"
  upsample :: UpSampling3D
  residual :: Add
  conv_block :: "'r ConvBlock"

text \<open>
  \<open>serialize\<close> stands for \<^verbatim>\<open>tf.keras.regularizers.serialize\<close> and
  \<open>base\<close> for the dictionary that \<^verbatim>\<open>super().get_config()\<close> returns.
\<close>

definition DecoderBlock_init ::
  "('r option \<Rightarrow> 'd) \<Rightarrow> 'd config \<Rightarrow> nat \<Rightarrow> nat \<Rightarrow> data_format \<Rightarrow> nat \<Rightarrow> nat \<Rightarrow> 'r option \<Rightarrow>
   initializer \<Rightarrow> bool \<Rightarrow> ('r, 'd) DecoderBlock" where
  "DecoderBlock_init serialize base filters' kernel_size' data_format' groups' reduction'
       kernel_regularizer' kernel_initializer' use_se' =
     \<lparr>config = base(''filters'' \<mapsto> Nat_value filters',
                     ''kernel_size'' \<mapsto> Nat_value kernel_size',
                     ''data_format'' \<mapsto> Format_value data_format',
                     ''groups'' \<mapsto> Nat_value groups',
                     ''reduction'' \<mapsto> Nat_value reduction',
                     ''kernel_regularizer'' \<mapsto> Descriptor (serialize kernel_regularizer'),
                     ''use_se'' \<mapsto> Bool_value use_se'),
      conv3d_ptwise = Conv3D filters' 1 1 same data_format' None kernel_initializer' kernel_regularizer',
      upsample = UpSampling3D 2 data_format',
      residual = Add,
      conv_block = ConvBlock filters' kernel_size' data_format' groups' (Some reduction')
                     kernel_regularizer' (Some kernel_initializer') (Some use_se')\<rparr>"

text \<open>The learned parameters of a block: the kernel of its pointwise convolution and
  the kernel of its ConvBlock.\<close>

record 'a block_params =
  ptwise_kernel :: "'a kernel"
  conv_block_kernel :: "'a kernel"


definition DecoderBlock_get_config :: "('r, 'd) DecoderBlock \<Rightarrow> 'd config" where
  "DecoderBlock_get_config self = config self"

text \<open>
  The class defines no \<^verbatim>\<open>from_config\<close>; the one it inherits from the
  library's \<^verbatim>\<open>Layer\<close> is the call \<^verbatim>\<open>cls(**config)\<close>.  The call binds
  the entries of the dictionary to the parameters of \<^verbatim>\<open>__init__\<close> before the
  body runs: an entry whose key is not a parameter, or no entry for \<open>filters\<close>, the
  one parameter without a default, raises TypeError.  The result \<open>Inr\<close> is the
  dictionary of the bound arguments, on which the body of \<^verbatim>\<open>__init__\<close> then
  runs.
\<close>

definition DecoderBlock_from_config :: "'d config \<Rightarrow> error + 'd config" where
  "DecoderBlock_from_config config' =
     (if dom config' \<subseteq> {''filters'', ''kernel_size'', ''data_format'', ''groups'', ''reduction'',
                          ''kernel_regularizer'', ''kernel_initializer'', ''use_se''}
         \<and> config' ''filters'' \<noteq> None
      then Inr config' else Inl TypeError)"

subsection \<open>ConvDecoder\<close>

record ('r, 'd) ConvDecoder =
  config :: "'d config"
  dec_block_2 :: "('r, 'd) DecoderBlock"
  dec_block_1 :: "('r, 'd) DecoderBlock"
  dec_block_0 :: "('r, 'd) DecoderBlock"
  conv_out :: "'r Conv3D"
  ptwise_logits :: "'r Conv3D"




definition ConvDecoder_get_config :: "('r, 'd) ConvDecoder \<Rightarrow> 'd config" where
  "ConvDecoder_get_config self = ConvDecoder.config self"

section \<open>The variational autoencoder (\<^verbatim>\<open>model/variational_autoencoder.py\<close>)\<close>

subsection \<open>VariationalAutoencoderBlock\<close>

text \<open>The convolutions of this file are given no \<^verbatim>\<open>kernel_initializer\<close>; the
  library's default for Conv3D is \<open>glorot_uniform\<close>.\<close>

record 'r VariationalAutoencoderBlock =
  conv3d_ptwise :: "'r Conv3D"
  upsample :: UpSampling3D
  conv_block :: "'r ConvBlock"

definition VariationalAutoencoderBlock_init ::
  "nat \<Rightarrow> nat \<Rightarrow> data_format \<Rightarrow> nat \<Rightarrow> 'r option \<Rightarrow> 'r VariationalAutoencoderBlock" where
  "VariationalAutoencoderBlock_init filters' kernel_size' data_format' groups' kernel_regularizer' =
     \<lparr>conv3d_ptwise = Conv3D filters' 1 1 same data_format' None glorot_uniform kernel_regularizer',
      upsample = UpSampling3D 2 data_format',
      conv_block = ConvBlock filters' kernel_size' data_format' groups' None kernel_regularizer'
                     None None\<rparr>"

definition VariationalAutoencoderBlock_call ::
  "'a float_ops \<Rightarrow> 'r VariationalAutoencoderBlock \<Rightarrow> 'a block_params \<Rightarrow> 'a tensor \<Rightarrow>
   error + 'a tensor" where
  "VariationalAutoencoderBlock_call F self \<theta> x =
     bindE (Conv3D_call F (conv3d_ptwise self) (ptwise_kernel \<theta>) x) (\<lambda>x.
     bindE (UpSampling3D_call (upsample self) x) (\<lambda>x.
     ConvBlock_call (conv_block self) (conv_block_kernel \<theta>) x))"

subsection \<open>VariationalAutoencoder\<close>

datatype Lambda = Lambda_sample

record 'r VariationalAutoencoder =
  groupnorm_VD :: GroupNormalization
  relu_VD :: Activation
  conv3d_VD :: "'r Conv3D"
  flatten_VD :: Flatten
  proj_VD :: Dense
  sample_VDraw :: Lambda
  proj_VU :: Dense
  relu_VU :: Activation
  reshape_VU :: Reshape
  conv1d_VU :: "'r Conv3D"
  conv3d_upsample_VU :: UpSampling3D
  conv_block_2 :: "'r VariationalAutoencoderBlock"
  conv_block_1 :: "'r VariationalAutoencoderBlock"
  conv_block_0 :: "'r VariationalAutoencoderBlock"
  conv_out :: "'r Conv3D"

text \<open>
  The attribute \<^verbatim>\<open>self.sample\<close> is the field \<open>sample_VDraw\<close>.
  \<^verbatim>\<open>int(H/16)\<close> is the integer part of the quotient, \<open>H div 16\<close> for the
  natural number \<open>H\<close>.
\<close>

definition VariationalAutoencoder_init ::
  "constants \<Rightarrow> data_format \<Rightarrow> nat \<Rightarrow> nat \<Rightarrow> 'r option \<Rightarrow> 'r VariationalAutoencoder" where
  "VariationalAutoencoder_init c data_format' groups' kernel_size' kernel_regularizer' =
     (let h = H c div 16; w = W c div 16; d = D c div 16 in
      \<lparr>groupnorm_VD = GroupNormalization groups' (if data_format' = channels_last then - 1 else 1),
       relu_VD = Activation relu,
       conv3d_VD = Conv3D (VAE_VD_CONV_SIZE c) kernel_size' 2 same data_format' None glorot_uniform
                     kernel_regularizer',
       flatten_VD = Flatten data_format',
       proj_VD = Dense (VAE_VD_BLOCK_SIZE c),
       sample_VDraw = Lambda_sample,
       proj_VU = Dense (h * w * d * 1),
       relu_VU = Activation relu,
       reshape_VU = Reshape [h, w, d, 1],
       conv1d_VU = Conv3D (VAE_VU_BLOCK_SIZE c) 1 1 same data_format' None glorot_uniform
                     kernel_regularizer',
       conv3d_upsample_VU = UpSampling3D 2 data_format',
       conv_block_2 = VariationalAutoencoderBlock_init (VAE_CONV_BLOCK2_SIZE c) kernel_size'
                        data_format' groups' kernel_regularizer',
       conv_block_1 = VariationalAutoencoderBlock_init (VAE_CONV_BLOCK1_SIZE c) kernel_size'
                        data_format' groups' kernel_regularizer',
       conv_block_0 = VariationalAutoencoderBlock_init (VAE_CONV_BLOCK0_SIZE c) kernel_size'
                        data_format' groups' kernel_regularizer',
       conv_out = Conv3D (IN_CH c) kernel_size' 1 same data_format' None glorot_uniform
                    kernel_regularizer'\<rparr>)"

record 'a vae_params =
  groupnorm_VD_kernel :: "'a kernel"
  conv3d_VD_kernel :: "'a kernel"
  proj_VD_kernel :: "'a kernel"
  proj_VU_kernel :: "'a kernel"
  conv1d_VU_kernel :: "'a kernel"
  conv_block_2_params :: "'a block_params"
  conv_block_1_params :: "'a block_params"
  conv_block_0_params :: "'a block_params"
  vae_conv_out_kernel :: "'a kernel"

definition Lambda_call ::
  "'a float_ops \<Rightarrow> (nat list \<Rightarrow> 'a) \<Rightarrow> Lambda \<Rightarrow> 'a tensor \<times> 'a tensor \<Rightarrow> error + 'a tensor" where
  "Lambda_call F normal l latent_args = (case l of Lambda_sample \<Rightarrow> sample F normal latent_args)"

text \<open>The forward pass, one function for each stage that the source marks with a
  comment: \<^verbatim>\<open># VD Block\<close>, \<^verbatim>\<open># VDraw Block\<close>, \<^verbatim>\<open># VU Block\<close>,
  the three blocks \<^verbatim>\<open># VUp2 and VBlock2\<close> to \<^verbatim>\<open># VUp0 and VBlock0\<close>, and
  \<^verbatim>\<open># Vend\<close>.\<close>

definition VD_block ::
  "'a float_ops \<Rightarrow> 'r VariationalAutoencoder \<Rightarrow> 'a vae_params \<Rightarrow> 'a tensor \<Rightarrow> error + 'a tensor" where
  "VD_block F self \<theta> x =
     bindE (GroupNormalization_call (groupnorm_VD self) (groupnorm_VD_kernel \<theta>) x) (\<lambda>x.
     bindE (Activation_call F (relu_VD self) x) (\<lambda>x.
     bindE (Conv3D_call F (conv3d_VD self) (conv3d_VD_kernel \<theta>) x) (\<lambda>x.
     bindE (Flatten_call (flatten_VD self) x) (\<lambda>x.
     Dense_call (proj_VD self) (proj_VD_kernel \<theta>) x))))"

definition VDraw_block ::
  "'a float_ops \<Rightarrow> constants \<Rightarrow> 'r VariationalAutoencoder \<Rightarrow> (nat list \<Rightarrow> 'a) \<Rightarrow> 'a tensor \<Rightarrow>
   error + ('a tensor \<times> 'a tensor \<times> 'a tensor)" where
  "VDraw_block F c self normal x =
     bindE (slice_cols_to (VAE_LATENT_SIZE c) x) (\<lambda>z_mean.
     bindE (slice_cols_from (VAE_LATENT_SIZE c) x) (\<lambda>z_logvar.
     bindE (Lambda_call F normal (sample_VDraw self) (z_mean, z_logvar)) (\<lambda>x.
     Inr (x, z_mean, z_logvar))))"

definition VU_block ::
  "'a float_ops \<Rightarrow> 'r VariationalAutoencoder \<Rightarrow> 'a vae_params \<Rightarrow> 'a tensor \<Rightarrow> error + 'a tensor" where
  "VU_block F self \<theta> x =
     bindE (Dense_call (proj_VU self) (proj_VU_kernel \<theta>) x) (\<lambda>x.
     bindE (Activation_call F (relu_VU self) x) (\<lambda>x.
     bindE (Reshape_call (reshape_VU self) x) (\<lambda>x.
     bindE (Conv3D_call F (conv1d_VU self) (conv1d_VU_kernel \<theta>) x) (\<lambda>x.
     UpSampling3D_call (conv3d_upsample_VU self) x))))"

definition VUp_blocks ::
  "'a float_ops \<Rightarrow> 'r VariationalAutoencoder \<Rightarrow> 'a vae_params \<Rightarrow> 'a tensor \<Rightarrow> error + 'a tensor" where
  "VUp_blocks F self \<theta> x =
     bindE (VariationalAutoencoderBlock_call F (conv_block_2 self) (conv_block_2_params \<theta>) x) (\<lambda>x.
     bindE (VariationalAutoencoderBlock_call F (conv_block_1 self) (conv_block_1_params \<theta>) x) (\<lambda>x.
     VariationalAutoencoderBlock_call F (conv_block_0 self) (conv_block_0_params \<theta>) x))"

definition Vend ::
  "'a float_ops \<Rightarrow> 'r VariationalAutoencoder \<Rightarrow> 'a vae_params \<Rightarrow> 'a tensor \<Rightarrow> error + 'a tensor" where
  "Vend F self \<theta> x = Conv3D_call F (conv_out self) (vae_conv_out_kernel \<theta>) x"

definition VariationalAutoencoder_call ::
  "'a float_ops \<Rightarrow> constants \<Rightarrow> 'r VariationalAutoencoder \<Rightarrow> 'a vae_params \<Rightarrow> (nat list \<Rightarrow> 'a) \<Rightarrow>
   'a tensor \<Rightarrow> error + ('a tensor \<times> 'a tensor \<times> 'a tensor)" where
  "VariationalAutoencoder_call F c self \<theta> normal x =
     bindE (VD_block F self \<theta> x) (\<lambda>x.
     bindE (VDraw_block F c self normal x) (\<lambda>drawn.
       case drawn of (x, z_mean, z_logvar) \<Rightarrow>
         bindE (VU_block F self \<theta> x) (\<lambda>x.
         bindE (VUp_blocks F self \<theta> x) (\<lambda>x.
         bindE (Vend F self \<theta> x) (\<lambda>x.
         Inr (x, z_mean, z_logvar))))))"

section \<open>Inputs for running the model\<close>

text \<open>
  Arithmetic over the reals in place of the 32-bit floats, to run the definitions
  on concrete inputs, and the sizes of the end-to-end scenario of the spec: a
  64\<times>64\<times>64 input, residuals of 32, 64 and 128 channels, a bottleneck of 256
  channels at 8\<times>8\<times>8, two logit channels.
\<close>

definition real_ops :: "real float_ops" where
  "real_ops = \<lparr>fadd = (+), fmul = (*), fexp = exp, fhalf = 1 / 2,
               frelu = max 0, fsigmoid = (\<lambda>x. 1 / (1 + exp (- x)))\<rparr>"

definition scenario_constants :: constants where
  "scenario_constants =
     \<lparr>H = 64, W = 64, D = 64, IN_CH = 4, OUT_CH = 3,
      DEC_CONV_BLOCK2_SIZE = 128, DEC_CONV_BLOCK1_SIZE = 64, DEC_CONV_BLOCK0_SIZE = 32,
      DEC_CONV_LAYER_SIZE = 32,
      VAE_VD_CONV_SIZE = 16, VAE_LATENT_SIZE = 128,
      VAE_VU_BLOCK_SIZE = 256,
      VAE_CONV_BLOCK2_SIZE = 128, VAE_CONV_BLOCK1_SIZE = 64, VAE_CONV_BLOCK0_SIZE = 32\<rparr>"

definition const_tensor :: "nat list \<Rightarrow> 'a \<Rightarrow> 'a tensor" where
  "const_tensor s v = \<lparr>shape = s, elem = (\<lambda>idx. v)\<rparr>"

definition const_kernel :: "'a \<Rightarrow> 'a kernel" where
  "const_kernel v = (\<lambda>x idx. v)"

definition zero_block_params :: "real block_params" where
  "zero_block_params = \<lparr>ptwise_kernel = const_kernel 0, conv_block_kernel = const_kernel 0\<rparr>"


definition zero_vae_params :: "real vae_params" where
  "zero_vae_params =
     \<lparr>groupnorm_VD_kernel = const_kernel 0, conv3d_VD_kernel = const_kernel 0,
      proj_VD_kernel = const_kernel 0, proj_VU_kernel = const_kernel 0,
      conv1d_VU_kernel = const_kernel 0, conv_block_2_params = zero_block_params,
      conv_block_1_params = zero_block_params, conv_block_0_params = zero_block_params,
      vae_conv_out_kernel = const_kernel 0\<rparr>"

text \<open>The dictionary that the library's \<^verbatim>\<open>Layer.get_config\<close> returns for a
  layer of the given name: the name, the trainable flag and the dtype.\<close>

definition Layer_get_config :: "string \<Rightarrow> unit config" where
  "Layer_get_config name =
     [''name'' \<mapsto> Str_value name, ''trainable'' \<mapsto> Bool_value True,
      ''dtype'' \<mapsto> Str_value ''float32'']"

section \<open>Notions used in the statements\<close>


text \<open>
  The sizes with which the library constructs every layer of the autoencoder and no
  tensor of its forward pass is empty: the volume reshaped from the latent vector has
  the extent \<open>H div 16\<close>, \<open>W div 16\<close>, \<open>D div 16\<close>.
\<close>

definition vae_sizes_ok :: "constants \<Rightarrow> bool" where
  "vae_sizes_ok c \<longleftrightarrow>
     16 \<le> H c \<and> 16 \<le> W c \<and> 16 \<le> D c \<and> 0 < IN_CH c \<and>
     0 < VAE_VD_CONV_SIZE c \<and> 0 < VAE_LATENT_SIZE c \<and> 0 < VAE_VU_BLOCK_SIZE c \<and>
     0 < VAE_CONV_BLOCK2_SIZE c \<and> 0 < VAE_CONV_BLOCK1_SIZE c \<and> 0 < VAE_CONV_BLOCK0_SIZE c"

section \<open>Properties of the primitives\<close>

lemma bindE_Inr [simp]: "bindE (Inr x) f = f x"
  by (simp add: bindE_def)

lemma bindE_Inl [simp]: "bindE (Inl e) f = Inl e"
  by (simp add: bindE_def)

lemma bindE_eq_Inr: "bindE m f = Inr y \<longleftrightarrow> (\<exists>x. m = Inr x \<and> f x = Inr y)"
  by (cases m) simp_all

lemma broadcast_rev_same: "broadcast_rev s s = Inr s"
  by (induction s) simp_all

lemma broadcast_shape_same: "broadcast_shape s s = Inr s"
  by (simp add: broadcast_shape_def broadcast_rev_same)

lemma map2_keep_in_range:
  "list_all2 (<) idx (s :: nat list) \<Longrightarrow>
   map2 (\<lambda>d i. if d = Suc 0 then 0 else i) s idx = idx"
  by (induction idx s rule: list_all2_induct) auto

lemma bcast_index_same: "valid_index s idx \<Longrightarrow> bcast_index s idx = idx"
  unfolding valid_index_def bcast_index_def
  by (frule list_all2_lengthD) (simp add: map2_keep_in_range)

lemma elementwise2_same_shape:
  "shape a = shape b \<Longrightarrow>
   \<exists>r. elementwise2 f a b = Inr r \<and> shape r = shape a \<and>
       (\<forall>idx. valid_index (shape a) idx \<longrightarrow> elem r idx = f (elem a idx) (elem b idx))"
  by (simp add: elementwise2_def broadcast_shape_same bcast_index_same)

text \<open>
  Claim C1.  For equally shaped \<open>z_mean\<close> and \<open>z_logvar\<close> and a fixed draw, the
  sampling step succeeds, its result has the shape of \<open>z_mean\<close>, and the element at
  every index is \<open>mean + exp (0.5 * log_variance) * epsilon\<close>, computed with the
  program's own scalar operations.
\<close>

theorem sample_reparameterization:
  assumes "shape z_mean = shape z_logvar"
  shows "\<exists>r. sample F normal (z_mean, z_logvar) = Inr r \<and> shape r = shape z_mean \<and>
           (\<forall>idx. valid_index (shape z_mean) idx \<longrightarrow>
              elem r idx = fadd F (elem z_mean idx)
                           (fmul F (fexp F (fmul F (fhalf F) (elem z_logvar idx))) (normal idx)))"
proof -
  let ?e = "elementwise1 (fexp F) (elementwise1 (fmul F (fhalf F)) z_logvar)"
  let ?eps = "\<lparr>shape = shape z_mean, elem = normal\<rparr>"
  have "shape ?e = shape ?eps"
    using assms by (simp add: elementwise1_def)
  from elementwise2_same_shape [OF this, of "fmul F"]
  obtain scaled where scaled: "elementwise2 (fmul F) ?e ?eps = Inr scaled"
    "shape scaled = shape z_mean"
    "\<forall>idx. valid_index (shape z_mean) idx \<longrightarrow> elem scaled idx = fmul F (elem ?e idx) (normal idx)"
    using assms by (auto simp: elementwise1_def)
  from elementwise2_same_shape [of z_mean scaled "fadd F"] scaled(2)
  obtain r where r: "elementwise2 (fadd F) z_mean scaled = Inr r" "shape r = shape z_mean"
    "\<forall>idx. valid_index (shape z_mean) idx \<longrightarrow> elem r idx = fadd F (elem z_mean idx) (elem scaled idx)"
    by auto
  have "sample F normal (z_mean, z_logvar) = Inr r"
    using scaled(1) r(1) by (simp add: sample_def)
  moreover have "\<forall>idx. valid_index (shape z_mean) idx \<longrightarrow>
      elem r idx = fadd F (elem z_mean idx)
                   (fmul F (fexp F (fmul F (fhalf F) (elem z_logvar idx))) (normal idx))"
    using r(3) scaled(3) by (simp add: elementwise1_def)
  ultimately show ?thesis using r(2) by blast
qed

theorem sample_reparameterization_witness:
  "shape (const_tensor [1, 2] (3::real)) = shape (const_tensor [1, 2] (0::real)) \<and>
   (\<exists>r. sample real_ops (\<lambda>idx. 2) (const_tensor [1, 2] 3, const_tensor [1, 2] 0) = Inr r \<and>
        shape r = [1, 2] \<and> elem r [0, 1] = 5)"
proof -
  have h: "shape (const_tensor [1, 2] (3::real)) = shape (const_tensor [1, 2] (0::real))"
    by (simp add: const_tensor_def)
  from sample_reparameterization [OF h, of real_ops "\<lambda>idx. 2"]
  obtain r where r: "sample real_ops (\<lambda>idx. 2) (const_tensor [1, 2] 3, const_tensor [1, 2] 0) = Inr r"
    "shape r = shape (const_tensor [1, 2] (3::real))"
    "\<forall>idx. valid_index (shape (const_tensor [1, 2] (3::real))) idx \<longrightarrow>
       elem r idx = fadd real_ops (elem (const_tensor [1, 2] 3) idx)
         (fmul real_ops (fexp real_ops (fmul real_ops (fhalf real_ops)
            (elem (const_tensor [1, 2] 0) idx))) 2)"
    by blast
  have "valid_index (shape (const_tensor [1, 2] (3::real))) [0, 1]"
    by (simp add: valid_index_def const_tensor_def)
  with r(3) have "elem r [0, 1] = 5"
    by (simp add: const_tensor_def real_ops_def)
  with r(1,2) h show ?thesis by (auto simp: const_tensor_def)
qed

lemma split5_join5 [simp]: "length sp = 3 \<Longrightarrow> split5 df (join5 df n sp ch) = Some (n, sp, ch)"
  by (cases df; cases sp rule: list.exhaust; simp add: join5_def length_Suc_conv numeral_3_eq_3)
     (auto simp: length_Suc_conv numeral_3_eq_3)

lemma split5_SomeD:
  "split5 df s = Some (n, sp, ch) \<Longrightarrow> s = join5 df n sp ch \<and> length sp = 3"
  by (induction df s rule: split5.induct) (auto simp: join5_def)

lemma split5_rank5: "length s = 5 \<Longrightarrow> \<exists>n sp ch. split5 df s = Some (n, sp, ch)"
  by (cases df) (auto simp: length_Suc_conv eval_nat_numeral)

lemma length_join5 [simp]: "length (join5 df n sp ch) = length sp + 2"
  by (cases df) (simp_all add: join5_def)

lemma empty_axis_join5 [simp]:
  "list_ex (\<lambda>d. d = 0) (join5 df n sp ch) \<longleftrightarrow> n = 0 \<or> 0 \<in> set sp \<or> ch = 0"
  by (cases df) (auto simp: join5_def list_ex_iff)

lemma conv_output_length_same_1 [simp]: "conv_output_length same k (Suc 0) = (\<lambda>d. d)"
  by (simp add: conv_output_length_def fun_eq_iff)

lemma conv_output_length_pos:
  "0 < s \<Longrightarrow> 0 < d \<Longrightarrow> 0 < conv_output_length same k s d"
  by (simp add: conv_output_length_def div_greater_zero_iff)

lemma Conv3D_call_same:
  assumes "split5 (Conv3D.data_format l) (shape x) = Some (n, sp, ch)"
    and "0 < n" and "0 \<notin> set sp" and "0 < ch"
    and "0 < Conv3D.filters l" and "0 < Conv3D.kernel_size l" and "0 < strides l"
    and "padding l = same"
  shows "Conv3D_call F l k x =
     Inr \<lparr>shape = join5 (Conv3D.data_format l) n
                     (map (conv_output_length same (Conv3D.kernel_size l) (strides l)) sp)
                     (Conv3D.filters l),
          elem = (case activation l of None \<Rightarrow> k x | Some a \<Rightarrow> (\<lambda>idx. act F a (k x idx)))\<rparr>"
  using assms split5_SomeD [OF assms(1)] by (simp add: Conv3D_call_def)

lemma Conv3D_call_channels:
  assumes "Conv3D_call F l k x = Inr y"
  shows "\<exists>n sp. shape y = join5 (Conv3D.data_format l) n sp (Conv3D.filters l) \<and> length sp = 3"
proof -
  let ?f = "conv_output_length (padding l) (Conv3D.kernel_size l) (strides l)"
  from assms obtain n sp ch where s: "split5 (Conv3D.data_format l) (shape x) = Some (n, sp, ch)"
    and y: "shape y = join5 (Conv3D.data_format l) n (map ?f sp) (Conv3D.filters l)"
    by (auto simp: Conv3D_call_def split: option.splits if_splits)
  from split5_SomeD [OF s] have "length (map ?f sp) = 3" by simp
  with y show ?thesis by blast
qed

lemma UpSampling3D_call_eq:
  assumes "split5 (UpSampling3D.data_format l) (shape x) = Some (n, sp, ch)"
  shows "UpSampling3D_call l x =
     Inr \<lparr>shape = join5 (UpSampling3D.data_format l) n (map (\<lambda>d. d * up_size l) sp) ch,
          elem = (\<lambda>idx. elem x (upsample_source (UpSampling3D.data_format l) (up_size l) idx))\<rparr>"
  using assms by (simp add: UpSampling3D_call_def)

lemma ConvBlock_call_eq:
  assumes "split5 (ConvBlock.data_format l) (shape x) = Some (n, sp, ch)"
  shows "ConvBlock_call l k x =
     Inr \<lparr>shape = join5 (ConvBlock.data_format l) n sp (ConvBlock.filters l), elem = k x\<rparr>"
  using assms by (simp add: ConvBlock_call_def)


lemma expand_dims1_0 [simp]: "expand_dims1 0 t = t"
  by (cases t) (auto simp: expand_dims1_def fun_eq_iff split: list.splits)









lemma split5_volume:
  assumes "length s = 5" and "0 \<notin> set s"
  shows "\<exists>n sp ch. split5 df s = Some (n, sp, ch) \<and> 0 < n \<and> 0 \<notin> set sp \<and> 0 < ch"
proof -
  from split5_rank5 [OF assms(1), of df] obtain n sp ch
    where s: "split5 df s = Some (n, sp, ch)" by blast
  from split5_SomeD [OF s] assms(2) have "0 < n \<and> 0 \<notin> set sp \<and> 0 < ch"
    by (cases df) (auto simp: join5_def)
  with s show ?thesis by blast
qed

lemma volume_join5:
  "length sp = 3 \<Longrightarrow> 0 < n \<Longrightarrow> 0 \<notin> set sp \<Longrightarrow> 0 < ch \<Longrightarrow>
   length (join5 df n sp ch) = 5 \<and> 0 \<notin> set (join5 df n sp ch)"
  by (cases df) (auto simp: join5_def)

lemma Conv3D_call_volume:
  assumes "length (shape x) = 5" and "0 \<notin> set (shape x)"
    and "0 < Conv3D.filters l" and "0 < Conv3D.kernel_size l" and "0 < strides l"
    and "padding l = same"
  shows "\<exists>y. Conv3D_call F l k x = Inr y \<and> length (shape y) = 5 \<and> 0 \<notin> set (shape y)"
proof -
  let ?f = "conv_output_length same (Conv3D.kernel_size l) (strides l)"
  from split5_volume [OF assms(1,2), of "Conv3D.data_format l"] obtain n sp ch
    where s: "split5 (Conv3D.data_format l) (shape x) = Some (n, sp, ch)"
      and pos: "0 < n" "0 \<notin> set sp" "0 < ch" by blast
  have "length (map ?f sp) = 3" using split5_SomeD [OF s] by simp
  moreover have "0 \<notin> set (map ?f sp)"
  proof
    assume "0 \<in> set (map ?f sp)"
    then obtain d where d: "d \<in> set sp" "?f d = 0" by auto
    have "0 < d"
    proof (rule gr0I)
      assume "d = 0"
      with d(1) pos(2) show False by simp
    qed
    from conv_output_length_pos [OF assms(5) this, of "Conv3D.kernel_size l"] d(2)
    show False by simp
  qed
  ultimately show ?thesis
    using Conv3D_call_same [OF s pos assms(3-6), of F k] volume_join5 [of "map ?f sp" n]
      pos(1) assms(3) by simp
qed

lemma UpSampling3D_call_volume:
  assumes "length (shape x) = 5" and "0 \<notin> set (shape x)" and "0 < up_size l"
  shows "\<exists>y. UpSampling3D_call l x = Inr y \<and> length (shape y) = 5 \<and> 0 \<notin> set (shape y)"
proof -
  from split5_volume [OF assms(1,2), of "UpSampling3D.data_format l"] obtain n sp ch
    where s: "split5 (UpSampling3D.data_format l) (shape x) = Some (n, sp, ch)"
      and pos: "0 < n" "0 \<notin> set sp" "0 < ch" by blast
  have "length (map (\<lambda>d. d * up_size l) sp) = 3" using split5_SomeD [OF s] by simp
  moreover have "0 \<notin> set (map (\<lambda>d. d * up_size l) sp)"
    using pos(2) assms(3) by auto
  ultimately show ?thesis
    using UpSampling3D_call_eq [OF s] volume_join5 [of "map (\<lambda>d. d * up_size l) sp" n ch]
      pos(1,3) by simp
qed

lemma ConvBlock_call_volume:
  assumes "length (shape x) = 5" and "0 \<notin> set (shape x)" and "0 < ConvBlock.filters l"
  shows "\<exists>y. ConvBlock_call l k x = Inr y \<and> length (shape y) = 5 \<and> 0 \<notin> set (shape y)"
proof -
  from split5_volume [OF assms(1,2), of "ConvBlock.data_format l"] obtain n sp ch
    where s: "split5 (ConvBlock.data_format l) (shape x) = Some (n, sp, ch)"
      and pos: "0 < n" "0 \<notin> set sp" "0 < ch" by blast
  have "length sp = 3" using split5_SomeD [OF s] by simp
  then show ?thesis
    using ConvBlock_call_eq [OF s, of k] volume_join5 [of sp n "ConvBlock.filters l"]
      pos(1,2) assms(3) by simp
qed

lemma VariationalAutoencoderBlock_call_volume:
  assumes "length (shape x) = 5" and "0 \<notin> set (shape x)" and "0 < f" and "0 < ks"
  shows "\<exists>y. VariationalAutoencoderBlock_call F
               (VariationalAutoencoderBlock_init f ks df g kr) \<theta> x = Inr y \<and>
             length (shape y) = 5 \<and> 0 \<notin> set (shape y)"
proof -
  from Conv3D_call_volume [OF assms(1,2), of "Conv3D f 1 1 same df None glorot_uniform kr" F
      "ptwise_kernel \<theta>"] assms(3)
  obtain a where a: "Conv3D_call F (Conv3D f 1 1 same df None glorot_uniform kr)
      (ptwise_kernel \<theta>) x = Inr a" "length (shape a) = 5" "0 \<notin> set (shape a)" by auto
  from UpSampling3D_call_volume [OF a(2,3), of "UpSampling3D 2 df"]
  obtain b where b: "UpSampling3D_call (UpSampling3D 2 df) a = Inr b" "length (shape b) = 5"
    "0 \<notin> set (shape b)" by auto
  from ConvBlock_call_volume [OF b(2,3), of "ConvBlock f ks df g None kr None None"
      "conv_block_kernel \<theta>"] assms(3)
  obtain y where y: "ConvBlock_call (ConvBlock f ks df g None kr None None)
      (conv_block_kernel \<theta>) b = Inr y" "length (shape y) = 5" "0 \<notin> set (shape y)" by auto
  show ?thesis using a(1) b(1) y
    by (simp add: VariationalAutoencoderBlock_call_def VariationalAutoencoderBlock_init_def)
qed


lemma sample_shape:
  assumes "shape z_mean = shape z_logvar"
  shows "\<exists>r. sample F normal (z_mean, z_logvar) = Inr r \<and> shape r = shape z_mean"
proof -
  let ?e = "elementwise1 (fexp F) (elementwise1 (fmul F (fhalf F)) z_logvar)"
  let ?eps = "\<lparr>shape = shape z_mean, elem = normal\<rparr>"
  have "shape ?e = shape ?eps" using assms by (simp add: elementwise1_def)
  from elementwise2_same_shape [OF this, of "fmul F"]
  obtain scaled where scaled: "elementwise2 (fmul F) ?e ?eps = Inr scaled"
    "shape scaled = shape z_mean"
    using assms by (auto simp: elementwise1_def)
  from elementwise2_same_shape [of z_mean scaled "fadd F"] scaled(2)
  obtain r where r: "elementwise2 (fadd F) z_mean scaled = Inr r" "shape r = shape z_mean"
    by auto
  show ?thesis using scaled(1) r by (simp add: sample_def)
qed

lemma VD_block_shape:
  assumes "length (shape x) = 5" and "0 \<notin> set (shape x)"
    and "0 < ks" and "0 < VAE_VD_CONV_SIZE c"
  shows "\<exists>p. VD_block F (VariationalAutoencoder_init c df g ks kr) \<theta> x = Inr p \<and>
             shape p = [hd (shape x), 2 * VAE_LATENT_SIZE c]"
proof -
  let ?l = "Conv3D (VAE_VD_CONV_SIZE c) ks 2 same df None glorot_uniform kr"
  let ?a = "elementwise1 (act F relu) \<lparr>shape = shape x, elem = groupnorm_VD_kernel \<theta> x\<rparr>"
  from split5_volume [OF assms(1,2), of df] obtain n sp ch
    where s: "split5 df (shape x) = Some (n, sp, ch)"
      and pos: "0 < n" "0 \<notin> set sp" "0 < ch" by blast
  from split5_SomeD [OF s] have n: "hd (shape x) = n"
    by (cases df) (auto simp: join5_def)
  have "split5 (Conv3D.data_format ?l) (shape ?a) = Some (n, sp, ch)"
    using s by (simp add: elementwise1_def)
  from Conv3D_call_same [OF this pos, of F "conv3d_VD_kernel \<theta>"] assms(3,4) split5_SomeD [OF s]
  obtain b where b: "Conv3D_call F ?l (conv3d_VD_kernel \<theta>) ?a = Inr b"
    "hd (shape b) = n" "shape b \<noteq> []"
    by (cases df) (auto simp: join5_def)
  from b(2,3) obtain rest where rest: "shape b = n # rest" by (cases "shape b") auto
  show ?thesis
    using b(1) rest n
    by (simp add: VD_block_def VariationalAutoencoder_init_def GroupNormalization_call_def
        Activation_call_def Flatten_call_def Dense_call_def Let_def VAE_VD_BLOCK_SIZE_def)
qed

lemma Dense_call_shape:
  assumes "shape x = [n, k]"
  shows "\<exists>y. Dense_call l kern x = Inr y \<and> shape y = [n, units l]"
  using assms by (simp add: Dense_call_def)

lemma Activation_call_shape:
  "\<exists>y. Activation_call F l x = Inr y \<and> shape y = shape x"
  by (simp add: Activation_call_def elementwise1_def)

lemma Reshape_call_shape:
  assumes "shape x = n # rest" and "prod_list rest = prod_list (target_shape l)"
  shows "\<exists>y. Reshape_call l x = Inr y \<and> shape y = n # target_shape l"
  using assms by (simp add: Reshape_call_def)

lemma VU_block_reshaped:
  assumes "shape z = [n, k]"
  shows "\<exists>a b r. Dense_call (Dense (H c div 16 * (W c div 16) * (D c div 16) * 1))
                    (proj_VU_kernel \<theta>) z = Inr a \<and>
            shape a = [n, H c div 16 * (W c div 16) * (D c div 16)] \<and>
            Activation_call F (Activation relu) a = Inr b \<and>
            shape b = [n, H c div 16 * (W c div 16) * (D c div 16)] \<and>
            Reshape_call (Reshape [H c div 16, W c div 16, D c div 16, 1]) b = Inr r \<and>
            shape r = [n, H c div 16, W c div 16, D c div 16, 1]"
proof -
  let ?h = "H c div 16" and ?w = "W c div 16" and ?d = "D c div 16"
  from Dense_call_shape [OF assms, of "Dense (?h * ?w * ?d * 1)" "proj_VU_kernel \<theta>"]
  obtain a where a: "Dense_call (Dense (?h * ?w * ?d * 1)) (proj_VU_kernel \<theta>) z = Inr a"
    "shape a = [n, ?h * ?w * ?d]" by auto
  from Activation_call_shape [of F "Activation relu" a]
  obtain b where b: "Activation_call F (Activation relu) a = Inr b" "shape b = [n, ?h * ?w * ?d]"
    using a(2) by auto
  from Reshape_call_shape [of b n "[?h * ?w * ?d]" "Reshape [?h, ?w, ?d, 1]"] b(2)
  obtain r where r: "Reshape_call (Reshape [?h, ?w, ?d, 1]) b = Inr r"
    "shape r = [n, ?h, ?w, ?d, 1]" by (auto simp: mult.assoc)
  from a b r show ?thesis by blast
qed

lemma VU_block_volume:
  assumes "shape z = [n, k]" and "0 < n"
    and "16 \<le> H c" and "16 \<le> W c" and "16 \<le> D c" and "0 < VAE_VU_BLOCK_SIZE c"
  shows "\<exists>y. VU_block F (VariationalAutoencoder_init c df g ks kr) \<theta> z = Inr y \<and>
             length (shape y) = 5 \<and> 0 \<notin> set (shape y)"
proof -
  let ?h = "H c div 16" and ?w = "W c div 16" and ?d = "D c div 16"
  from VU_block_reshaped [OF assms(1), of c \<theta> F]
  obtain a b r where a: "Dense_call (Dense (?h * ?w * ?d * 1)) (proj_VU_kernel \<theta>) z = Inr a"
    and b: "Activation_call F (Activation relu) a = Inr b"
    and r: "Reshape_call (Reshape [?h, ?w, ?d, 1]) b = Inr r" "shape r = [n, ?h, ?w, ?d, 1]"
    by blast
  have "0 < ?h" "0 < ?w" "0 < ?d" using assms(3-5) by (simp_all add: div_greater_zero_iff)
  then have "length (shape r) = 5" "0 \<notin> set (shape r)" using r(2) assms(2) by auto
  from Conv3D_call_volume [OF this, of "Conv3D (VAE_VU_BLOCK_SIZE c) 1 1 same df None glorot_uniform kr"
      F "conv1d_VU_kernel \<theta>"] assms(6)
  obtain v where v: "Conv3D_call F (Conv3D (VAE_VU_BLOCK_SIZE c) 1 1 same df None glorot_uniform kr)
      (conv1d_VU_kernel \<theta>) r = Inr v" "length (shape v) = 5" "0 \<notin> set (shape v)" by auto
  from UpSampling3D_call_volume [OF v(2,3), of "UpSampling3D 2 df"]
  obtain y where y: "UpSampling3D_call (UpSampling3D 2 df) v = Inr y" "length (shape y) = 5"
    "0 \<notin> set (shape y)" by auto
  show ?thesis using a b r(1) v(1) y
    by (simp add: VU_block_def VariationalAutoencoder_init_def Let_def)
qed

lemma VUp_blocks_volume:
  assumes "length (shape x) = 5" and "0 \<notin> set (shape x)" and "0 < ks"
    and "0 < VAE_CONV_BLOCK2_SIZE c" and "0 < VAE_CONV_BLOCK1_SIZE c"
    and "0 < VAE_CONV_BLOCK0_SIZE c"
  shows "\<exists>y. VUp_blocks F (VariationalAutoencoder_init c df g ks kr) \<theta> x = Inr y \<and>
             length (shape y) = 5 \<and> 0 \<notin> set (shape y)"
proof -
  from VariationalAutoencoderBlock_call_volume [OF assms(1,2) assms(4,3), of F df g kr
      "conv_block_2_params \<theta>"]
  obtain y2 where y2: "VariationalAutoencoderBlock_call F
      (VariationalAutoencoderBlock_init (VAE_CONV_BLOCK2_SIZE c) ks df g kr)
      (conv_block_2_params \<theta>) x = Inr y2" "length (shape y2) = 5" "0 \<notin> set (shape y2)" by blast
  from VariationalAutoencoderBlock_call_volume [OF y2(2,3) assms(5,3), of F df g kr
      "conv_block_1_params \<theta>"]
  obtain y1 where y1: "VariationalAutoencoderBlock_call F
      (VariationalAutoencoderBlock_init (VAE_CONV_BLOCK1_SIZE c) ks df g kr)
      (conv_block_1_params \<theta>) y2 = Inr y1" "length (shape y1) = 5" "0 \<notin> set (shape y1)" by blast
  from VariationalAutoencoderBlock_call_volume [OF y1(2,3) assms(6,3), of F df g kr
      "conv_block_0_params \<theta>"]
  obtain y0 where y0: "VariationalAutoencoderBlock_call F
      (VariationalAutoencoderBlock_init (VAE_CONV_BLOCK0_SIZE c) ks df g kr)
      (conv_block_0_params \<theta>) y1 = Inr y0" "length (shape y0) = 5" "0 \<notin> set (shape y0)" by blast
  show ?thesis using y2(1) y1(1) y0
    by (simp add: VUp_blocks_def VariationalAutoencoder_init_def Let_def)
qed

lemma Vend_result:
  assumes "length (shape v) = 5" and "0 \<notin> set (shape v)" and "0 < ks" and "0 < IN_CH c"
  shows "\<exists>n sp ch. shape v = join5 df n sp ch \<and> length sp = 3 \<and>
           Vend F (VariationalAutoencoder_init c df g ks kr) \<theta> v =
             Inr \<lparr>shape = join5 df n sp (IN_CH c), elem = vae_conv_out_kernel \<theta> v\<rparr>"
proof -
  from split5_volume [OF assms(1,2), of df] obtain n sp ch
    where s: "split5 df (shape v) = Some (n, sp, ch)"
      and pos: "0 < n" "0 \<notin> set sp" "0 < ch" by blast
  have "split5 (Conv3D.data_format (Conv3D (IN_CH c) ks 1 same df None glorot_uniform kr))
          (shape v) = Some (n, sp, ch)" using s by simp
  from Conv3D_call_same [OF this pos, of F "vae_conv_out_kernel \<theta>"] assms(3,4)
  have "Vend F (VariationalAutoencoder_init c df g ks kr) \<theta> v =
      Inr \<lparr>shape = join5 df n sp (IN_CH c), elem = vae_conv_out_kernel \<theta> v\<rparr>"
    by (simp add: Vend_def VariationalAutoencoder_init_def Let_def)
  with split5_SomeD [OF s] show ?thesis by blast
qed

lemma Vend_Inr:
  assumes "Vend F (VariationalAutoencoder_init c df g ks kr) \<theta> v = Inr recon"
  shows "\<exists>n sp ch. shape v = join5 df n sp ch \<and> length sp = 3 \<and>
           shape recon = join5 df n sp (IN_CH c) \<and> elem recon = vae_conv_out_kernel \<theta> v"
proof -
  from assms obtain n sp ch where s: "split5 df (shape v) = Some (n, sp, ch)"
    and r: "recon = \<lparr>shape = join5 df n (map (conv_output_length same ks 1) sp) (IN_CH c),
                     elem = vae_conv_out_kernel \<theta> v\<rparr>"
    by (auto simp: Vend_def VariationalAutoencoder_init_def Let_def Conv3D_call_def
        split: option.splits if_splits)
  from split5_SomeD [OF s] r show ?thesis by auto
qed

lemma VariationalAutoencoder_call_stages:
  "VariationalAutoencoder_call F c self \<theta> normal x = Inr (recon, m, lv) \<longleftrightarrow>
   (\<exists>p s u v. VD_block F self \<theta> x = Inr p \<and>
      slice_cols_to (VAE_LATENT_SIZE c) p = Inr m \<and>
      slice_cols_from (VAE_LATENT_SIZE c) p = Inr lv \<and>
      sample F normal (m, lv) = Inr s \<and>
      VU_block F self \<theta> s = Inr u \<and> VUp_blocks F self \<theta> u = Inr v \<and>
      Vend F self \<theta> v = Inr recon)"
  by (cases "sample_VDraw self")
     (auto simp: VariationalAutoencoder_call_def VDraw_block_def Lambda_call_def bindE_eq_Inr)

lemma latent_decode_run:
  assumes p: "shape p = [n, 2 * VAE_LATENT_SIZE c]" and n: "0 < n"
    and ks: "0 < ks" and c: "vae_sizes_ok c"
  shows "\<exists>m lv s u v recon.
           slice_cols_to (VAE_LATENT_SIZE c) p = Inr m \<and>
           slice_cols_from (VAE_LATENT_SIZE c) p = Inr lv \<and>
           shape m = [n, VAE_LATENT_SIZE c] \<and> shape lv = [n, VAE_LATENT_SIZE c] \<and>
           sample F normal (m, lv) = Inr s \<and>
           VU_block F (VariationalAutoencoder_init c df g ks kr) \<theta> s = Inr u \<and>
           VUp_blocks F (VariationalAutoencoder_init c df g ks kr) \<theta> u = Inr v \<and>
           Vend F (VariationalAutoencoder_init c df g ks kr) \<theta> v = Inr recon"
proof -
  let ?vae = "VariationalAutoencoder_init c df g ks kr :: 'b VariationalAutoencoder"
  let ?L = "VAE_LATENT_SIZE c"
  obtain m where m: "slice_cols_to ?L p = Inr m" "shape m = [n, ?L]"
    using p by (simp add: slice_cols_to_def)
  obtain lv where lv: "slice_cols_from ?L p = Inr lv" "shape lv = [n, ?L]"
    using p by (simp add: slice_cols_from_def)
  have "shape m = shape lv" using m(2) lv(2) by simp
  from sample_shape [OF this, of F normal]
  obtain s where s: "sample F normal (m, lv) = Inr s" "shape s = [n, ?L]" using m(2) by auto
  from VU_block_volume [OF s(2) n, of c F df g ks kr \<theta>] c
  obtain u where u: "VU_block F ?vae \<theta> s = Inr u" "length (shape u) = 5" "0 \<notin> set (shape u)"
    by (auto simp: vae_sizes_ok_def)
  from VUp_blocks_volume [OF u(2,3) ks, of c F df g kr \<theta>] c
  obtain v where v: "VUp_blocks F ?vae \<theta> u = Inr v" "length (shape v) = 5" "0 \<notin> set (shape v)"
    by (auto simp: vae_sizes_ok_def)
  from Vend_result [OF v(2,3) ks, of c df F g kr \<theta>] c
  obtain recon where recon: "Vend F ?vae \<theta> v = Inr recon" by (auto simp: vae_sizes_ok_def)
  from m lv s(1) u(1) v(1) recon show ?thesis by blast
qed

lemma VariationalAutoencoder_call_run:
  assumes "length (shape x) = 5" and "0 \<notin> set (shape x)" and "0 < ks" and "vae_sizes_ok c"
  shows "\<exists>recon z_mean z_logvar.
           VariationalAutoencoder_call F c (VariationalAutoencoder_init c df g ks kr) \<theta> normal x =
             Inr (recon, z_mean, z_logvar)"
proof -
  from VD_block_shape [OF assms(1-3), of c F df g kr \<theta>] assms(4)
  obtain p where p: "VD_block F (VariationalAutoencoder_init c df g ks kr) \<theta> x = Inr p"
    "shape p = [hd (shape x), 2 * VAE_LATENT_SIZE c]" by (auto simp: vae_sizes_ok_def)
  have "0 < hd (shape x)" using assms(1,2) by (cases "shape x") auto
  from latent_decode_run [OF p(2) this assms(3,4), of F normal df g kr \<theta>] p(1)
  show ?thesis unfolding VariationalAutoencoder_call_stages by blast
qed

lemma slice_cols_to_elem: "slice_cols_to k p = Inr m \<Longrightarrow> elem m idx = elem p idx"
  by (auto simp: slice_cols_to_def split: list.splits)

lemma slice_cols_from_elem:
  "slice_cols_from k p = Inr lv \<Longrightarrow> elem lv [i, j] = elem p [i, j + k]"
  by (auto simp: slice_cols_from_def split: list.splits)


text \<open>
  Claim C3.  On a bottleneck volume with no empty axis the forward pass normalizes,
  applies the rectified-linear activation, convolves with stride 2, which halves the
  spatial extent (rounding up), flattens each batch element to one vector and
  projects it with the learned dense kernel to \<open>p\<close>, a vector of length
  \<open>2 * VAE_LATENT_SIZE\<close> for each batch element.  It returns as mean the first
  \<open>VAE_LATENT_SIZE\<close> entries of \<open>p\<close> and as log-variance the remaining ones; both
  have the shape (batch, \<open>VAE_LATENT_SIZE\<close>).
\<close>

theorem VariationalAutoencoder_latent_split:
  assumes "shape x = join5 df n [a, b, d] ch"
    and "0 < n" and "0 < a" and "0 < b" and "0 < d" and "0 < ch"
    and "0 < ks" and "0 < g" and "vae_sizes_ok c"
  shows "\<exists>(normalized :: 'a tensor) (activated :: 'a tensor) (strided :: 'a tensor)
            (flattened :: 'a tensor) (p :: 'a tensor) recon z_mean z_logvar.
           shape normalized = shape x \<and> elem normalized = groupnorm_VD_kernel \<theta> x \<and>
           shape activated = shape x \<and>
           (\<forall>idx. elem activated idx = frelu F (elem normalized idx)) \<and>
           shape strided = join5 df n [(a + 1) div 2, (b + 1) div 2, (d + 1) div 2]
                             (VAE_VD_CONV_SIZE c) \<and>
           elem strided = conv3d_VD_kernel \<theta> activated \<and>
           shape flattened = [n, (a + 1) div 2 * ((b + 1) div 2) * ((d + 1) div 2) *
                                 VAE_VD_CONV_SIZE c] \<and>
           (\<forall>i j. elem flattened [i, j] =
                    (if df = channels_first
                     then let t = unravel [(a + 1) div 2, (b + 1) div 2, (d + 1) div 2,
                                           VAE_VD_CONV_SIZE c] j
                          in elem strided (i # last t # butlast t)
                     else elem strided (i # unravel [(a + 1) div 2, (b + 1) div 2, (d + 1) div 2,
                                                     VAE_VD_CONV_SIZE c] j))) \<and>
           shape p = [n, 2 * VAE_LATENT_SIZE c] \<and> elem p = proj_VD_kernel \<theta> flattened \<and>
           VariationalAutoencoder_call F c (VariationalAutoencoder_init c df g ks kr) \<theta> normal x =
             Inr (recon, z_mean, z_logvar) \<and>
           shape z_mean = [n, VAE_LATENT_SIZE c] \<and>
           shape z_logvar = [n, VAE_LATENT_SIZE c] \<and>
           (\<forall>i j. j < VAE_LATENT_SIZE c \<longrightarrow>
                  elem z_mean [i, j] = elem p [i, j] \<and>
                  elem z_logvar [i, j] = elem p [i, VAE_LATENT_SIZE c + j])"
proof -
  let ?vae = "VariationalAutoencoder_init c df g ks kr"
  let ?L = "VAE_LATENT_SIZE c" and ?C = "VAE_VD_CONV_SIZE c"
  let ?a = "(a + 1) div 2" and ?b = "(b + 1) div 2" and ?d = "(d + 1) div 2"
  let ?conv = "Conv3D ?C ks 2 same df None glorot_uniform kr"
  define normalized where "normalized = \<lparr>shape = shape x, elem = groupnorm_VD_kernel \<theta> x\<rparr>"
  define activated where
    "activated = \<lparr>shape = shape x, elem = (\<lambda>idx. frelu F (elem normalized idx))\<rparr>"
  define strided where
    "strided = \<lparr>shape = join5 df n [?a, ?b, ?d] ?C, elem = conv3d_VD_kernel \<theta> activated\<rparr>"
  have C: "0 < ?C" using assms(9) by (simp add: vae_sizes_ok_def)
  have gn: "GroupNormalization_call (groupnorm_VD ?vae) (groupnorm_VD_kernel \<theta>) x = Inr normalized"
    by (simp add: GroupNormalization_call_def normalized_def)
  have act: "Activation_call F (Activation relu) normalized = Inr activated"
    by (simp add: Activation_call_def elementwise1_def act_def activated_def normalized_def)
  have "split5 (Conv3D.data_format ?conv) (shape activated) = Some (n, [a, b, d], ch)"
    using assms(1) by (simp add: activated_def)
  from Conv3D_call_same [OF this, of F "conv3d_VD_kernel \<theta>"] assms(2-7) C
  have conv: "Conv3D_call F ?conv (conv3d_VD_kernel \<theta>) activated = Inr strided"
    by (simp add: strided_def conv_output_length_def)
  obtain flattened where flat: "Flatten_call (Flatten df) strided = Inr flattened"
    "shape flattened = [n, ?a * ?b * ?d * ?C]"
    "\<forall>i j. elem flattened [i, j] =
             (if df = channels_first
              then let t = unravel [?a, ?b, ?d, ?C] j in elem strided (i # last t # butlast t)
              else elem strided (i # unravel [?a, ?b, ?d, ?C] j))"
    by (cases df) (simp_all add: Flatten_call_def strided_def join5_def ac_simps)
  define p where "p = \<lparr>shape = [n, 2 * ?L], elem = proj_VD_kernel \<theta> flattened\<rparr>"
  have dense: "Dense_call (Dense (VAE_VD_BLOCK_SIZE c)) (proj_VD_kernel \<theta>) flattened = Inr p"
    using flat(2) by (simp add: Dense_call_def p_def VAE_VD_BLOCK_SIZE_def)
  have vd: "VD_block F ?vae \<theta> x = Inr p"
    using gn act conv flat(1) dense
    by (simp add: VD_block_def VariationalAutoencoder_init_def Let_def)
  have "shape p = [n, 2 * ?L]" by (simp add: p_def)
  from latent_decode_run [OF this assms(2,7,9), of F normal df g kr \<theta>]
  obtain m lv s u v recon where m: "slice_cols_to ?L p = Inr m" "shape m = [n, ?L]"
    and lv: "slice_cols_from ?L p = Inr lv" "shape lv = [n, ?L]"
    and rest: "sample F normal (m, lv) = Inr s" "VU_block F ?vae \<theta> s = Inr u"
      "VUp_blocks F ?vae \<theta> u = Inr v" "Vend F ?vae \<theta> v = Inr recon"
    by blast
  have call: "VariationalAutoencoder_call F c ?vae \<theta> normal x = Inr (recon, m, lv)"
    unfolding VariationalAutoencoder_call_stages using vd m(1) lv(1) rest by blast
  have slices: "\<forall>i j. j < ?L \<longrightarrow>
          elem m [i, j] = elem p [i, j] \<and> elem lv [i, j] = elem p [i, ?L + j]"
    using slice_cols_to_elem [OF m(1)] slice_cols_from_elem [OF lv(1)]
    by (simp add: add.commute)
  have "shape normalized = shape x" "elem normalized = groupnorm_VD_kernel \<theta> x"
    "shape activated = shape x" "\<forall>idx. elem activated idx = frelu F (elem normalized idx)"
    "shape strided = join5 df n [?a, ?b, ?d] ?C" "elem strided = conv3d_VD_kernel \<theta> activated"
    "shape p = [n, 2 * ?L]" "elem p = proj_VD_kernel \<theta> flattened"
    by (simp_all add: normalized_def activated_def strided_def p_def)
  with flat(2,3) call m(2) lv(2) slices show ?thesis by blast
qed

text \<open>
  Claim C6.  Whatever the forward pass returns is a triple of the reconstruction, the
  mean and the log-variance: the second and third components are the two slices of
  the VD projection, and the first holds the values of the final convolution's
  learned kernel, with no activation applied, on the output of the three blocks that
  follow the VU stage of the sample drawn from that mean and log-variance; it has the
  batch size and spatial extent of that output and \<open>IN_CH\<close> channels, for every data
  format, group count, kernel size and regularizer.  The pass returns such a triple
  on every volume with no empty axis when the sizes are positive.
\<close>

theorem VariationalAutoencoder_returns_triple:
  "(\<forall>recon z_mean z_logvar.
       VariationalAutoencoder_call F c (VariationalAutoencoder_init c df g ks kr) \<theta> normal x =
         Inr (recon, z_mean, z_logvar) \<longrightarrow>
       (\<exists>p s u v n sp ch.
          VD_block F (VariationalAutoencoder_init c df g ks kr) \<theta> x = Inr p \<and>
          slice_cols_to (VAE_LATENT_SIZE c) p = Inr z_mean \<and>
          slice_cols_from (VAE_LATENT_SIZE c) p = Inr z_logvar \<and>
          sample F normal (z_mean, z_logvar) = Inr s \<and>
          VU_block F (VariationalAutoencoder_init c df g ks kr) \<theta> s = Inr u \<and>
          VUp_blocks F (VariationalAutoencoder_init c df g ks kr) \<theta> u = Inr v \<and>
          shape v = join5 df n sp ch \<and> length sp = 3 \<and>
          shape recon = join5 df n sp (IN_CH c) \<and>
          elem recon = vae_conv_out_kernel \<theta> v))
   \<and> (length (shape x) = 5 \<and> 0 \<notin> set (shape x) \<and> 0 < ks \<and> 0 < g \<and> vae_sizes_ok c \<longrightarrow>
       (\<exists>recon z_mean z_logvar.
          VariationalAutoencoder_call F c (VariationalAutoencoder_init c df g ks kr) \<theta> normal x =
            Inr (recon, z_mean, z_logvar)))"
proof (intro conjI allI impI)
  fix recon z_mean z_logvar
  let ?vae = "VariationalAutoencoder_init c df g ks kr"
  assume "VariationalAutoencoder_call F c ?vae \<theta> normal x = Inr (recon, z_mean, z_logvar)"
  then obtain p s u v where st: "VD_block F ?vae \<theta> x = Inr p"
    "slice_cols_to (VAE_LATENT_SIZE c) p = Inr z_mean"
    "slice_cols_from (VAE_LATENT_SIZE c) p = Inr z_logvar"
    "sample F normal (z_mean, z_logvar) = Inr s"
    "VU_block F ?vae \<theta> s = Inr u" "VUp_blocks F ?vae \<theta> u = Inr v"
    and v: "Vend F ?vae \<theta> v = Inr recon"
    unfolding VariationalAutoencoder_call_stages by blast
  from Vend_Inr [OF v] obtain n sp ch where "shape v = join5 df n sp ch" "length sp = 3"
    "shape recon = join5 df n sp (IN_CH c)" "elem recon = vae_conv_out_kernel \<theta> v" by blast
  with st show "\<exists>p s u v n sp ch.
          VD_block F ?vae \<theta> x = Inr p \<and>
          slice_cols_to (VAE_LATENT_SIZE c) p = Inr z_mean \<and>
          slice_cols_from (VAE_LATENT_SIZE c) p = Inr z_logvar \<and>
          sample F normal (z_mean, z_logvar) = Inr s \<and>
          VU_block F ?vae \<theta> s = Inr u \<and>
          VUp_blocks F ?vae \<theta> u = Inr v \<and>
          shape v = join5 df n sp ch \<and> length sp = 3 \<and>
          shape recon = join5 df n sp (IN_CH c) \<and>
          elem recon = vae_conv_out_kernel \<theta> v" by blast
next
  assume "length (shape x) = 5 \<and> 0 \<notin> set (shape x) \<and> 0 < ks \<and> 0 < g \<and> vae_sizes_ok c"
  then show "\<exists>recon z_mean z_logvar.
          VariationalAutoencoder_call F c (VariationalAutoencoder_init c df g ks kr) \<theta> normal x =
            Inr (recon, z_mean, z_logvar)"
    using VariationalAutoencoder_call_run [of x ks c F df g kr \<theta> normal] by blast
qed

text \<open>
  Claim C10.  The mean and the log-variance that the forward pass returns are the two
  slices of the VD projection, they are the pair given to the sampler, and the
  reconstruction is computed from the sampler's output alone by the later stages.
\<close>

theorem returned_latent_is_sampler_input:
  assumes "VariationalAutoencoder_call F c self \<theta> normal x = Inr (recon, z_mean, z_logvar)"
  shows "\<exists>p s. VD_block F self \<theta> x = Inr p \<and>
           slice_cols_to (VAE_LATENT_SIZE c) p = Inr z_mean \<and>
           slice_cols_from (VAE_LATENT_SIZE c) p = Inr z_logvar \<and>
           sample F normal (z_mean, z_logvar) = Inr s \<and>
           bindE (VU_block F self \<theta> s) (\<lambda>u. bindE (VUp_blocks F self \<theta> u) (Vend F self \<theta>)) =
             Inr recon"
proof -
  from assms obtain p s u v where "VD_block F self \<theta> x = Inr p"
    "slice_cols_to (VAE_LATENT_SIZE c) p = Inr z_mean"
    "slice_cols_from (VAE_LATENT_SIZE c) p = Inr z_logvar"
    "sample F normal (z_mean, z_logvar) = Inr s"
    "VU_block F self \<theta> s = Inr u" "VUp_blocks F self \<theta> u = Inr v" "Vend F self \<theta> v = Inr recon"
    unfolding VariationalAutoencoder_call_stages by blast
  then show ?thesis by auto
qed


theorem VariationalAutoencoder_latent_split_witness:
  "shape (const_tensor [1, 8, 8, 8, 256] (0::real)) = join5 channels_last 1 [8, 8, 8] 256 \<and>
   vae_sizes_ok scenario_constants \<and>
   (\<exists>(strided :: real tensor) (flattened :: real tensor) (p :: real tensor) recon z_mean z_logvar.
      shape strided = [1, 4, 4, 4, 16] \<and> shape flattened = [1, 1024] \<and>
      elem flattened [0, 17] = elem strided [0, 0, 0, 1, 1] \<and>
      shape p = [1, 256] \<and> elem p = proj_VD_kernel zero_vae_params flattened \<and>
      VariationalAutoencoder_call real_ops scenario_constants
        (VariationalAutoencoder_init scenario_constants channels_last 8 3 (None :: unit option))
        zero_vae_params (\<lambda>idx. 0) (const_tensor [1, 8, 8, 8, 256] 0) =
        Inr (recon, z_mean, z_logvar) \<and>
      shape z_mean = [1, 128] \<and> shape z_logvar = [1, 128] \<and>
      elem z_mean [0, 5] = elem p [0, 5] \<and> elem z_logvar [0, 5] = elem p [0, 133])"
proof -
  let ?x = "const_tensor [1, 8, 8, 8, 256] (0::real)"
  have h1: "shape ?x = join5 channels_last 1 [8, 8, 8] 256"
    by (simp add: const_tensor_def join5_def)
  have h2: "vae_sizes_ok scenario_constants"
    by (simp add: vae_sizes_ok_def scenario_constants_def)
  have L: "VAE_LATENT_SIZE scenario_constants = 128" "VAE_VD_CONV_SIZE scenario_constants = 16"
    by (simp_all add: scenario_constants_def)
  from VariationalAutoencoder_latent_split [OF h1 _ _ _ _ _ _ _ h2, of 3 8 zero_vae_params real_ops
      "None :: unit option" "\<lambda>idx. 0"]
  obtain normalized activated strided flattened p :: "real tensor" and recon z_mean z_logvar where
    "shape strided = join5 channels_last 1 [(8 + 1) div 2, (8 + 1) div 2, (8 + 1) div 2]
                       (VAE_VD_CONV_SIZE scenario_constants)"
    "shape flattened = [1, (8 + 1) div 2 * ((8 + 1) div 2) * ((8 + 1) div 2) *
                           VAE_VD_CONV_SIZE scenario_constants]"
    "\<forall>i j. elem flattened [i, j] =
             (if channels_last = channels_first
              then let t = unravel [(8 + 1) div 2, (8 + 1) div 2, (8 + 1) div 2,
                                    VAE_VD_CONV_SIZE scenario_constants] j
                   in elem strided (i # last t # butlast t)
              else elem strided (i # unravel [(8 + 1) div 2, (8 + 1) div 2, (8 + 1) div 2,
                                              VAE_VD_CONV_SIZE scenario_constants] j))"
    "shape p = [1, 2 * VAE_LATENT_SIZE scenario_constants]"
    "elem p = proj_VD_kernel zero_vae_params flattened"
    "VariationalAutoencoder_call real_ops scenario_constants
        (VariationalAutoencoder_init scenario_constants channels_last 8 3 (None :: unit option))
        zero_vae_params (\<lambda>idx. 0) ?x = Inr (recon, z_mean, z_logvar)"
    "shape z_mean = [1, VAE_LATENT_SIZE scenario_constants]"
    "shape z_logvar = [1, VAE_LATENT_SIZE scenario_constants]"
    "\<forall>i j. j < VAE_LATENT_SIZE scenario_constants \<longrightarrow>
           elem z_mean [i, j] = elem p [i, j] \<and>
           elem z_logvar [i, j] = elem p [i, VAE_LATENT_SIZE scenario_constants + j]"
    by auto
  then have "shape strided = [1, 4, 4, 4, 16] \<and> shape flattened = [1, 1024] \<and>
      elem flattened [0, 17] = elem strided [0, 0, 0, 1, 1] \<and>
      shape p = [1, 256] \<and> elem p = proj_VD_kernel zero_vae_params flattened \<and>
      VariationalAutoencoder_call real_ops scenario_constants
        (VariationalAutoencoder_init scenario_constants channels_last 8 3 (None :: unit option))
        zero_vae_params (\<lambda>idx. 0) ?x = Inr (recon, z_mean, z_logvar) \<and>
      shape z_mean = [1, 128] \<and> shape z_logvar = [1, 128] \<and>
      elem z_mean [0, 5] = elem p [0, 5] \<and> elem z_logvar [0, 5] = elem p [0, 133]"
    by (simp add: L join5_def)
  with h1 h2 show ?thesis by blast
qed

theorem VariationalAutoencoder_returns_triple_witness:
  "(length (shape (const_tensor [1, 8, 8, 8, 256] (0::real))) = 5 \<and>
    0 \<notin> set (shape (const_tensor [1, 8, 8, 8, 256] (0::real))) \<and> (0::nat) < 3 \<and> (0::nat) < 8 \<and>
    vae_sizes_ok scenario_constants) \<and>
   (\<exists>recon z_mean z_logvar v n sp.
      VariationalAutoencoder_call real_ops scenario_constants
        (VariationalAutoencoder_init scenario_constants channels_last 8 3 (None :: unit option))
        zero_vae_params (\<lambda>idx. 0) (const_tensor [1, 8, 8, 8, 256] 0) =
        Inr (recon, z_mean, z_logvar) \<and>
      shape recon = n # sp @ [4] \<and> length sp = 3 \<and>
      elem recon = vae_conv_out_kernel zero_vae_params v)"
proof -
  note t = VariationalAutoencoder_returns_triple [of real_ops scenario_constants channels_last 8 3
      "None :: unit option" zero_vae_params "\<lambda>idx. 0" "const_tensor [1, 8, 8, 8, 256] 0"]
  have h: "length (shape (const_tensor [1, 8, 8, 8, 256] (0::real))) = 5 \<and>
    0 \<notin> set (shape (const_tensor [1, 8, 8, 8, 256] (0::real))) \<and> (0::nat) < 3 \<and> (0::nat) < 8 \<and>
    vae_sizes_ok scenario_constants"
    by (simp add: const_tensor_def vae_sizes_ok_def scenario_constants_def)
  from t [THEN conjunct2, rule_format, OF h]
  obtain recon z_mean z_logvar where r:
    "VariationalAutoencoder_call real_ops scenario_constants
        (VariationalAutoencoder_init scenario_constants channels_last 8 3 (None :: unit option))
        zero_vae_params (\<lambda>idx. 0) (const_tensor [1, 8, 8, 8, 256] 0) =
        Inr (recon, z_mean, z_logvar)" by blast
  from t [THEN conjunct1, rule_format, OF r]
  obtain v n sp where "shape recon = join5 channels_last n sp (IN_CH scenario_constants)"
    "length sp = 3" "elem recon = vae_conv_out_kernel zero_vae_params v" by blast
  then have "shape recon = n # sp @ [4] \<and> length sp = 3 \<and>
      elem recon = vae_conv_out_kernel zero_vae_params v"
    by (simp add: join5_def scenario_constants_def)
  with h r show ?thesis by blast
qed

theorem returned_latent_is_sampler_input_witness:
  "\<exists>recon z_mean z_logvar p s.
     VariationalAutoencoder_call real_ops scenario_constants
       (VariationalAutoencoder_init scenario_constants channels_last 8 3 (None :: unit option))
       zero_vae_params (\<lambda>idx. 0) (const_tensor [1, 8, 8, 8, 256] 0) =
       Inr (recon, z_mean, z_logvar) \<and>
     VD_block real_ops
       (VariationalAutoencoder_init scenario_constants channels_last 8 3 (None :: unit option))
       zero_vae_params (const_tensor [1, 8, 8, 8, 256] 0) = Inr p \<and>
     slice_cols_to 128 p = Inr z_mean \<and> slice_cols_from 128 p = Inr z_logvar \<and>
     sample real_ops (\<lambda>idx. 0) (z_mean, z_logvar) = Inr s"
proof -
  have h: "length (shape (const_tensor [1, 8, 8, 8, 256] (0::real))) = 5"
    "0 \<notin> set (shape (const_tensor [1, 8, 8, 8, 256] (0::real)))" "(0::nat) < 3"
    "vae_sizes_ok scenario_constants"
    by (simp_all add: const_tensor_def vae_sizes_ok_def scenario_constants_def)
  have L: "VAE_LATENT_SIZE scenario_constants = 128" by (simp add: scenario_constants_def)
  from VariationalAutoencoder_call_run [OF h, of real_ops channels_last 8
      "None :: unit option" zero_vae_params "\<lambda>idx. 0"]
  obtain recon z_mean z_logvar where r:
    "VariationalAutoencoder_call real_ops scenario_constants
       (VariationalAutoencoder_init scenario_constants channels_last 8 3 (None :: unit option))
       zero_vae_params (\<lambda>idx. 0) (const_tensor [1, 8, 8, 8, 256] 0) =
       Inr (recon, z_mean, z_logvar)" by blast
  from returned_latent_is_sampler_input [OF r] r show ?thesis
    unfolding L by blast
qed




text \<open>With \<open>channels_first\<close> the reshape target \<open>(h, w, d, 1)\<close> is read with
  \<open>h\<close> as the channel axis: the VU stage of the scenario yields the extent
  \<open>(8, 8, 2)\<close> instead of \<open>(8, 8, 8)\<close>.\<close>

lemma VU_block_channels_first_scenario:
  "\<exists>y. VU_block real_ops
          (VariationalAutoencoder_init scenario_constants channels_first 8 3 (None :: unit option))
          zero_vae_params (const_tensor [1, 128] 0) = Inr y \<and>
        shape y = [1, 256, 8, 8, 2]"
  by (simp add: VU_block_def VariationalAutoencoder_init_def scenario_constants_def Let_def
      Dense_call_def Activation_call_def elementwise1_def Reshape_call_def Conv3D_call_def
      UpSampling3D_call_def join5_def const_tensor_def conv_output_length_def)

text \<open>
  Claim C7, at a DecoderBlock built with the initializer \<open>glorot_uniform\<close>: the
  configuration has no entry for the kernel initializer, it is the configuration of
  the block built with \<open>he_normal\<close>, and the two blocks differ in the initializer of
  their pointwise convolution.
\<close>

theorem DecoderBlock_config_omits_kernel_initializer:
  "DecoderBlock_get_config
     (DecoderBlock_init (\<lambda>r :: unit option. ()) (Layer_get_config ''decoder_block'') 128 3
        channels_last 8 4 None glorot_uniform False) ''kernel_initializer'' = None
   \<and> DecoderBlock_get_config
       (DecoderBlock_init (\<lambda>r :: unit option. ()) (Layer_get_config ''decoder_block'') 128 3
          channels_last 8 4 None glorot_uniform False) =
     DecoderBlock_get_config
       (DecoderBlock_init (\<lambda>r :: unit option. ()) (Layer_get_config ''decoder_block'') 128 3
          channels_last 8 4 None he_normal False)
   \<and> Conv3D.kernel_initializer (DecoderBlock.conv3d_ptwise
         (DecoderBlock_init (\<lambda>r :: unit option. ()) (Layer_get_config ''decoder_block'') 128 3
            channels_last 8 4 None glorot_uniform False)) = glorot_uniform
   \<and> Conv3D.kernel_initializer (DecoderBlock.conv3d_ptwise
         (DecoderBlock_init (\<lambda>r :: unit option. ()) (Layer_get_config ''decoder_block'') 128 3
            channels_last 8 4 None he_normal False)) = he_normal"
  by (simp add: DecoderBlock_get_config_def DecoderBlock_init_def Layer_get_config_def)

text \<open>The configuration of a block keeps every entry of the base dictionary; an entry
  there whose key is not a parameter of the constructor makes the rebuilding call
  fail.\<close>

lemma DecoderBlock_from_config_unexpected_key:
  assumes "base key \<noteq> None"
    and "key \<notin> {''filters'', ''kernel_size'', ''data_format'', ''groups'', ''reduction'',
                 ''kernel_regularizer'', ''kernel_initializer'', ''use_se''}"
  shows "DecoderBlock_from_config
           (DecoderBlock_get_config
              (DecoderBlock_init serialize base f ks df g red kr ki se)) = Inl TypeError"
proof -
  define S where "S = {''filters'', ''kernel_size'', ''data_format'', ''groups'', ''reduction'',
                       ''kernel_regularizer'', ''kernel_initializer'', ''use_se''}"
  let ?cfg = "DecoderBlock_get_config (DecoderBlock_init serialize base f ks df g red kr ki se)"
  have "key \<in> dom base" using assms(1) by (simp add: domIff)
  moreover have "dom base \<subseteq> dom ?cfg"
    by (simp add: DecoderBlock_get_config_def DecoderBlock_init_def subset_insertI2)
  ultimately have "key \<in> dom ?cfg" by (rule subsetD [rotated])
  moreover have "key \<notin> S" using assms(2) unfolding S_def .
  ultimately have "\<not> dom ?cfg \<subseteq> S" by (meson subsetD)
  then show ?thesis unfolding DecoderBlock_from_config_def S_def [symmetric] by simp
qed

text \<open>
  Claim C8, at a DecoderBlock of 128 filters: its configuration holds the entry
  \<open>name\<close> of the base dictionary, which is no parameter of the constructor, and the
  call that rebuilds the block from the configuration raises TypeError.
\<close>

theorem DecoderBlock_from_config_raises:
  "DecoderBlock_get_config
     (DecoderBlock_init (\<lambda>r :: unit option. ()) (Layer_get_config ''decoder_block'') 128 3
        channels_last 8 4 None he_normal False) ''name'' = Some (Str_value ''decoder_block'')
   \<and> DecoderBlock_from_config
       (DecoderBlock_get_config
          (DecoderBlock_init (\<lambda>r :: unit option. ()) (Layer_get_config ''decoder_block'') 128 3
             channels_last 8 4 None he_normal False)) = Inl TypeError"
proof
  show "DecoderBlock_get_config
     (DecoderBlock_init (\<lambda>r :: unit option. ()) (Layer_get_config ''decoder_block'') 128 3
        channels_last 8 4 None he_normal False) ''name'' = Some (Str_value ''decoder_block'')"
    by (simp add: DecoderBlock_get_config_def DecoderBlock_init_def Layer_get_config_def)
  show "DecoderBlock_from_config
       (DecoderBlock_get_config
          (DecoderBlock_init (\<lambda>r :: unit option. ()) (Layer_get_config ''decoder_block'') 128 3
             channels_last 8 4 None he_normal False)) = Inl TypeError"
    by (rule DecoderBlock_from_config_unexpected_key [of _ "''name''"])
       (simp_all add: Layer_get_config_def)
qed

end
